theory Spec2Isabelle
  imports Complex_Main "HOL-Library.Sublist"
begin

section \<open>Sales record cleaner: a model of \<^verbatim>\<open>main.py\<close>\<close>

text \<open>
  The program is one function, \<^verbatim>\<open>main(input_file, output_file)\<close>, a straight line of
  pandas calls. The model follows it call by call. What the calls do is pandas, numpy and
  CPython behaviour (pandas 2.x, C parser, object-dtype text columns); each library
  operation the program uses is modelled by one definition below, with the library
  behaviour it stands for written next to it.

  Scope of the model:
  \<^item> the input file is taken after tokenisation: a list of lines, each a list of fields
    (splitting at commas, quote handling and \<^verbatim>\<open>skipinitialspace\<close> are the tokenizer's).
    A file that ends inside a quoted field has no such form (the tokenizer raises
    \<^verbatim>\<open>ParserError\<close> on it), nor has a file that cannot be opened or decoded (it raises
    its own error before any line is seen); such files are outside the model;
  \<^item> the file is read in one chunk (fewer than 262144 lines), so every column has one dtype;
  \<^item> a Python \<^verbatim>\<open>str\<close> is a \<^typ>\<open>string\<close> whose characters are code points below 256;
  \<^item> a float is the rational it denotes, or an infinity, or NaN; the sign of zero is not kept
    (\<^verbatim>\<open>-0.0 == 0.0\<close> in Python, and the model's equality is that \<^verbatim>\<open>==\<close>);
  \<^item> the output file is the list of records handed to \<^verbatim>\<open>to_json\<close>, the console output the
    numbers printed.
\<close>

subsection \<open>Python strings\<close>

text \<open>\<^verbatim>\<open>str.isspace\<close> on the code points below 256: TAB, LF, VT, FF, CR, FS, GS, RS, US,
  space, NEL (0x85) and NBSP (0xA0).\<close>

definition py_isspace :: "char \<Rightarrow> bool" where
  "py_isspace c = (of_char c \<in> {9, 10, 11, 12, 13, 28, 29, 30, 31, 32, 133, 160 :: nat})"

text \<open>\<^verbatim>\<open>s.strip()\<close>: whitespace removed at both ends.\<close>

definition py_strip :: "string \<Rightarrow> string" where
  "py_strip s = rev (dropWhile py_isspace (rev (dropWhile py_isspace s)))"

fun startswith :: "string \<Rightarrow> string \<Rightarrow> bool" where
  "startswith s [] = True"
| "startswith [] (p # ps) = False"
| "startswith (c # cs) (p # ps) = (c = p \<and> startswith cs ps)"

text \<open>\<^verbatim>\<open>s.replace(old, new)\<close> for a non-empty \<^verbatim>\<open>old\<close>: every occurrence, left to right, without
  overlap. (The program calls it with \<^verbatim>\<open>'"'\<close> and \<^verbatim>\<open>"$"\<close>; an empty \<^verbatim>\<open>old\<close> is left
  unchanged here.)\<close>

function py_replace :: "string \<Rightarrow> string \<Rightarrow> string \<Rightarrow> string" where
  "py_replace old new [] = []"
| "py_replace old new (c # cs) =
     (if old \<noteq> [] \<and> startswith (c # cs) old
      then new @ py_replace old new (drop (length old) (c # cs))
      else c # py_replace old new cs)"
  by pat_completeness auto
termination
  by (relation "measure (\<lambda>(old, new, s). length s)") auto

definition dquote :: char where
  "dquote = CHR 0x22"

definition is_digit :: "char \<Rightarrow> bool" where
  "is_digit c = (48 \<le> (of_char c :: nat) \<and> (of_char c :: nat) \<le> 57)"

definition digit_val :: "char \<Rightarrow> int" where
  "digit_val c = of_char c - 48"

definition digits_val :: "string \<Rightarrow> int" where
  "digits_val ds = foldl (\<lambda>n c. 10 * n + digit_val c) 0 ds"

text \<open>ASCII lower case, for the case-insensitive keywords.\<close>

definition lower :: "char \<Rightarrow> char" where
  "lower c = (if 65 \<le> (of_char c :: nat) \<and> (of_char c :: nat) \<le> 90
              then char_of (of_char c + 32 :: nat) else c)"

subsection \<open>Floats\<close>

text \<open>A binary64 value: a finite one is the rational it denotes.\<close>

datatype pyfloat = Fin rat | PInf | NInf | NaN

definition pow2 :: "int \<Rightarrow> rat" where
  "pow2 e = (if 0 \<le> e then 2 ^ nat e else 1 / 2 ^ nat (- e))"

definition pow10 :: "int \<Rightarrow> rat" where
  "pow10 e = (if 0 \<le> e then 10 ^ nat e else 1 / 10 ^ nat (- e))"

text \<open>The number of bits of a positive integer.\<close>

function bitlen :: "int \<Rightarrow> int" where
  "bitlen n = (if n \<le> 0 then 0 else 1 + bitlen (n div 2))"
  by pat_completeness auto
termination
  by (relation "measure nat") auto

declare bitlen.simps [simp del]

text \<open>The exponent of the leading bit of a positive rational: \<open>2 ^ e \<le> q < 2 ^ (e + 1)\<close>.\<close>

definition floor_log2 :: "rat \<Rightarrow> int" where
  "floor_log2 q =
     (let (n, d) = quotient_of q;
          k = bitlen n - bitlen d
      in if pow2 k \<le> q then k else k - 1)"

text \<open>Round to the nearest integer, halves to the even one (C's \<^verbatim>\<open>rint\<close> in the default
  rounding mode).\<close>

definition rint :: "rat \<Rightarrow> int" where
  "rint q =
     (let f = \<lfloor>q\<rfloor>; d = q - of_int f
      in if d < 1 / 2 then f else if 1 / 2 < d then f + 1
         else if even f then f else f + 1)"

text \<open>Rounding of an exact result to binary64, round-to-nearest-even: 53 significant bits,
  least exponent -1022 (below it the spacing stays \<open>2 ^ -1074\<close>), overflow to an infinity
  when the rounded value reaches \<open>2 ^ 1024\<close>.\<close>

definition to_double :: "rat \<Rightarrow> pyfloat" where
  "to_double q =
     (if q = 0 then Fin 0
      else let e = max (floor_log2 \<bar>q\<bar>) (- 1022);
               ulp = pow2 (e - 52);
               r = of_int (rint (q / ulp)) * ulp
           in if 1024 \<le> floor_log2 \<bar>r\<bar> then (if 0 < q then PInf else NInf) else Fin r)"

text \<open>\<^verbatim>\<open>x * y\<close> on floats where \<^verbatim>\<open>y\<close> is a positive finite constant (here 83.0).\<close>

definition fmul :: "pyfloat \<Rightarrow> rat \<Rightarrow> pyfloat" where
  "fmul x y = (case x of Fin q \<Rightarrow> to_double (q * y) | PInf \<Rightarrow> PInf | NInf \<Rightarrow> NInf | NaN \<Rightarrow> NaN)"

text \<open>\<^verbatim>\<open>Series.round(2)\<close> is numpy's \<^verbatim>\<open>around\<close>: for positive decimals
  \<^verbatim>\<open>true_divide(rint(a * 10**decimals), 10**decimals)\<close>, each step a binary64 operation.\<close>

definition np_round :: "pyfloat \<Rightarrow> nat \<Rightarrow> pyfloat" where
  "np_round x decimals =
     (case fmul x (10 ^ decimals) of
        Fin y \<Rightarrow> to_double (of_int (rint y) / 10 ^ decimals)
      | PInf \<Rightarrow> PInf | NInf \<Rightarrow> NInf | NaN \<Rightarrow> NaN)"

subsection \<open>\<^verbatim>\<open>float(str)\<close>\<close>

text \<open>CPython's \<^verbatim>\<open>float\<close> on a string, which \<^verbatim>\<open>astype(float)\<close> applies to every string of an
  object column. \<open>None\<close> is \<^verbatim>\<open>ValueError: could not convert string to float\<close>.
  The string is stripped of whitespace; underscores are accepted between digits only; then
  it is an optional sign followed by \<^verbatim>\<open>inf\<close>, \<^verbatim>\<open>infinity\<close> or \<^verbatim>\<open>nan\<close> in any case, or by a
  decimal literal (digits, optional point, at least one digit, optional exponent with at
  least one digit). The value is the literal's, correctly rounded.\<close>

fun strip_underscores :: "char \<Rightarrow> string \<Rightarrow> string option" where
  "strip_underscores prev [] = (if prev = CHR ''_'' then None else Some [])"
| "strip_underscores prev (c # cs) =
     (if c = CHR ''_'' then (if is_digit prev then strip_underscores c cs else None)
      else if prev = CHR ''_'' \<and> \<not> is_digit c then None
      else map_option ((#) c) (strip_underscores c cs))"

definition parse_sign :: "string \<Rightarrow> bool \<times> string" where
  "parse_sign s =
     (case s of
        [] \<Rightarrow> (False, s)
      | c # cs \<Rightarrow> if c = CHR ''-'' then (True, cs) else if c = CHR ''+'' then (False, cs)
                  else (False, s))"

text \<open>The digits before the point, the digits after it, and what follows.\<close>

definition split_mantissa :: "string \<Rightarrow> string \<times> string \<times> string" where
  "split_mantissa p =
     (let ip = takeWhile is_digit p; p1 = dropWhile is_digit p
      in case p1 of
           [] \<Rightarrow> (ip, [], p1)
         | c # cs \<Rightarrow> if c = CHR ''.'' then (ip, takeWhile is_digit cs, dropWhile is_digit cs)
                     else (ip, [], p1))"

definition parse_exponent :: "string \<Rightarrow> int option" where
  "parse_exponent s =
     (case s of
        [] \<Rightarrow> Some 0
      | c # cs \<Rightarrow>
          if c = CHR ''e'' \<or> c = CHR ''E''
          then (let (neg, ds) = parse_sign cs
                in if ds \<noteq> [] \<and> list_all is_digit ds
                   then Some (if neg then - digits_val ds else digits_val ds) else None)
          else None)"

definition parse_decimal :: "string \<Rightarrow> rat option" where
  "parse_decimal s =
     (let (neg, p) = parse_sign s; (ip, fp, p2) = split_mantissa p
      in if ip = [] \<and> fp = [] then None
         else case parse_exponent p2 of
                None \<Rightarrow> None
              | Some ex \<Rightarrow>
                  Some ((if neg then - 1 else 1) * of_int (digits_val (ip @ fp))
                        * pow10 (ex - int (length fp))))"

definition parse_inf_or_nan :: "string \<Rightarrow> pyfloat option" where
  "parse_inf_or_nan s =
     (let (neg, r) = parse_sign s; w = map lower r
      in if w = ''inf'' \<or> w = ''infinity'' then Some (if neg then NInf else PInf)
         else if w = ''nan'' then Some NaN else None)"

definition py_float :: "string \<Rightarrow> pyfloat option" where
  "py_float s =
     (let t = py_strip s
      in if t = [] then None
         else case strip_underscores (CHR 0x00) t of
                None \<Rightarrow> None
              | Some u \<Rightarrow>
                  (case parse_inf_or_nan u of
                     Some f \<Rightarrow> Some f
                   | None \<Rightarrow> map_option to_double (parse_decimal u)))"

subsection \<open>The Loader: \<^verbatim>\<open>pd.read_csv(input_file, header=None, names=[...])\<close>\<close>

datatype error = ParserError | AttributeError | ValueError

text \<open>The strings \<^verbatim>\<open>read_csv\<close> reads as missing by default (\<^verbatim>\<open>na_values\<close>, \<^verbatim>\<open>keep_default_na\<close>).\<close>

definition na_values :: "string list" where
  "na_values = ['''', ''#N/A'', ''#N/A N/A'', ''#NA'', ''-1.#IND'', ''-1.#QNAN'', ''-NaN'',
     ''-nan'', ''1.#IND'', ''1.#QNAN'', ''<NA>'', ''N/A'', ''NA'', ''NULL'', ''NaN'', ''None'',
     ''n/a'', ''nan'', ''null'']"

definition is_na :: "string \<Rightarrow> bool" where
  "is_na s = (s \<in> set na_values)"

text \<open>The parser tries to convert a column to int64, then to float64, then to bool, and
  keeps it as strings otherwise (\<^verbatim>\<open>_convert_tokens\<close> with the cast order int64, float64,
  bool, object). The three outcomes of a conversion of one field or of a column:\<close>

datatype conv = Converted | Invalid | Overflow

definition csv_isspace :: "char \<Rightarrow> bool" where
  "csv_isspace c = (of_char c \<in> {9, 10, 11, 12, 13, 32 :: nat})"

text \<open>\<^verbatim>\<open>str_to_int64\<close>: ASCII whitespace, an optional sign, digits, whitespace. The range is
  checked while the digits are read, before the rest of the field is looked at.\<close>

definition to_int64 :: "string \<Rightarrow> conv" where
  "to_int64 s =
     (let (neg, p) = parse_sign (dropWhile csv_isspace s); ds = takeWhile is_digit p
      in if ds = [] then Invalid
         else if (if neg then 2 ^ 63 < digits_val ds else 2 ^ 63 \<le> digits_val ds) then Overflow
         else if dropWhile csv_isspace (dropWhile is_digit p) \<noteq> [] then Invalid
         else Converted)"

text \<open>\<^verbatim>\<open>_try_int64\<close>: the fields in their order, the missing ones skipped; the first field
  that does not convert decides between \<^verbatim>\<open>OverflowError\<close> and giving up on int64.\<close>

fun try_int64 :: "string list \<Rightarrow> conv" where
  "try_int64 [] = Converted"
| "try_int64 (s # ss) =
     (if is_na s then try_int64 ss
      else case to_int64 s of Converted \<Rightarrow> try_int64 ss | Invalid \<Rightarrow> Invalid
           | Overflow \<Rightarrow> Overflow)"

text \<open>\<^verbatim>\<open>str_to_uint64\<close>, tried after an int64 overflow: a minus sign is only noted
  (\<open>USigned\<close>); a value is noted as beyond int64 or not.\<close>

datatype uint_conv = UInvalid | UOverflow | USigned | UValue bool

definition to_uint64 :: "string \<Rightarrow> uint_conv" where
  "to_uint64 s =
     (let p0 = dropWhile csv_isspace s
      in case p0 of
           [] \<Rightarrow> UInvalid
         | c # cs \<Rightarrow>
             if c = CHR ''-'' then USigned
             else let p = (if c = CHR ''+'' then cs else p0); ds = takeWhile is_digit p
                  in if ds = [] then UInvalid
                     else if 2 ^ 64 \<le> digits_val ds then UOverflow
                     else if dropWhile csv_isspace (dropWhile is_digit p) \<noteq> [] then UInvalid
                     else UValue (2 ^ 63 \<le> digits_val ds))"

text \<open>\<^verbatim>\<open>_try_uint64\<close>: the state is (a minus sign seen, a value beyond int64 seen, a missing
  field seen). At the end a value beyond int64 together with a minus sign or a missing
  field is \<^verbatim>\<open>ValueError\<close>, a minus sign alone is \<^verbatim>\<open>OverflowError\<close>.\<close>

datatype uint_result = UInt64 | UGiveUp | UOverflowError | UValueError

fun try_uint64 :: "bool \<times> bool \<times> bool \<Rightarrow> string list \<Rightarrow> uint_result" where
  "try_uint64 (seen_sint, seen_uint, seen_null) [] =
     (if seen_uint \<and> (seen_sint \<or> seen_null) then UValueError
      else if seen_sint then UOverflowError else UInt64)"
| "try_uint64 (seen_sint, seen_uint, seen_null) (s # ss) =
     (if is_na s then try_uint64 (seen_sint, seen_uint, True) ss
      else case to_uint64 s of
             UInvalid \<Rightarrow> UGiveUp
           | UOverflow \<Rightarrow> UOverflowError
           | USigned \<Rightarrow> try_uint64 (True, seen_uint, seen_null) ss
           | UValue big \<Rightarrow> try_uint64 (seen_sint, seen_uint \<or> big, seen_null) ss)"

text \<open>\<^verbatim>\<open>x + y\<close> on floats where \<^verbatim>\<open>y\<close> is finite.\<close>

definition fadd :: "pyfloat \<Rightarrow> rat \<Rightarrow> pyfloat" where
  "fadd x y = (case x of Fin q \<Rightarrow> to_double (q + y) | PInf \<Rightarrow> PInf | NInf \<Rightarrow> NInf | NaN \<Rightarrow> NaN)"

text \<open>The C \<^verbatim>\<open>int\<close> in which the exponent is accumulated: 32 bits, wrapping around.\<close>

definition wrap32 :: "int \<Rightarrow> int" where
  "wrap32 n = (n + 2 ^ 31) mod 2 ^ 32 - 2 ^ 31"

text \<open>The float \<^verbatim>\<open>1e<k>\<close> of the table of powers of ten, for \<open>k\<close> up to 308.\<close>

definition e_table :: "nat \<Rightarrow> rat" where
  "e_table k = (case to_double (10 ^ k) of Fin r \<Rightarrow> r | _ \<Rightarrow> 0)"

text \<open>\<^verbatim>\<open>precise_xstrtod\<close>, the default float converter, as far as it decides whether a field
  converts: ASCII whitespace around an optional sign, digits with an optional point and an
  optional exponent. The first 17 digits make the number, \<^verbatim>\<open>number * 10. + digit\<close> in
  floats; further digits before the point count into the exponent. At most 17 digits of
  the exponent are read, and an exponent without digits is not read at all. The conversion
  fails with \<^verbatim>\<open>ERANGE\<close> when there is no digit, when the exponent is above 308, or when the
  number times the power of ten is infinite; and it fails when the field is not used up.\<close>

definition precise_xstrtod_ok :: "string \<Rightarrow> bool" where
  "precise_xstrtod_ok s =
     (let (neg, p) = parse_sign (dropWhile csv_isspace s);
          (ip, fp, p2) = split_mantissa p;
          used = take 17 (ip @ fp);
          number = foldl (\<lambda>n c. fadd (fmul n 10) (of_int (digit_val c))) (Fin 0) used;
          exponent0 = int (length ip - 17) - int (length used - length (take 17 ip));
          (exponent, rest) =
            (case p2 of
               [] \<Rightarrow> (exponent0, [])
             | c # cs \<Rightarrow>
                 if lower c = CHR ''e''
                 then (let (eneg, ds) = parse_sign cs;
                           eds = take 17 (takeWhile is_digit ds);
                           n = foldl (\<lambda>n c. wrap32 (n * 10 + digit_val c)) 0 eds
                       in if eds = [] then (exponent0, p2)
                          else (wrap32 (if eneg then exponent0 - n else exponent0 + n),
                                drop (length eds) ds))
                 else (exponent0, p2));
          erange = (used = [] \<or> 308 < exponent \<or>
                    (0 < exponent \<and>
                     (case fmul number (e_table (nat exponent)) of Fin r \<Rightarrow> False | _ \<Rightarrow> True)))
      in \<not> erange \<and> dropWhile csv_isspace rest = [])"

text \<open>\<^verbatim>\<open>_try_double\<close>: a field converts when \<^verbatim>\<open>precise_xstrtod\<close> does, or when it is the name
  of an infinity, in any case.\<close>

definition to_float64 :: "string \<Rightarrow> bool" where
  "to_float64 s =
     (precise_xstrtod_ok s \<or>
      map lower s \<in> set [''inf'', ''+inf'', ''-inf'', ''infinity'', ''+infinity'', ''-infinity''])"

definition csv_bool :: "string \<Rightarrow> bool" where
  "csv_bool s = (map lower s = ''true'' \<or> map lower s = ''false'')"

text \<open>The dtype of a column, and whether its missing fields are read as missing. Int64,
  uint64 and float64 are all \<open>Numeric\<close> (an integer column with missing fields becomes
  float64); a bool column with missing fields is an object column of bools, \<open>Boolean\<close>
  here as well. An \<^verbatim>\<open>OverflowError\<close> leaves the column as strings; the \<^verbatim>\<open>ValueError\<close> of
  the uint64 attempt leaves it as it is, the missing fields as strings too. A column with no
  field at all (an empty file) is object; a column whose fields are all missing is float64.\<close>

datatype dtype = Numeric | Boolean | Object

definition infer_rest :: "string list \<Rightarrow> dtype \<times> bool" where
  "infer_rest col =
     (let vals = filter (\<lambda>s. \<not> is_na s) col
      in if list_all to_float64 vals then (Numeric, True)
         else if list_all csv_bool vals then (Boolean, True)
         else (Object, True))"

definition infer_column :: "string list \<Rightarrow> dtype \<times> bool" where
  "infer_column col =
     (if col = [] then (Object, True)
      else case try_int64 col of
             Converted \<Rightarrow> (Numeric, True)
           | Invalid \<Rightarrow> infer_rest col
           | Overflow \<Rightarrow>
               (case try_uint64 (False, False, False) col of
                  UInt64 \<Rightarrow> (Numeric, True)
                | UGiveUp \<Rightarrow> infer_rest col
                | UOverflowError \<Rightarrow> (Object, True)
                | UValueError \<Rightarrow> (Object, False)))"

definition infer_dtype :: "string list \<Rightarrow> dtype" where
  "infer_dtype col = fst (infer_column col)"

definition na_filter :: "string list \<Rightarrow> bool" where
  "na_filter col = snd (infer_column col)"

text \<open>A loaded value: missing, a string, a number (kept as the field it was read from) or
  a bool.\<close>

datatype cell = NA | Str string | Num string | Bool bool

definition load_cell :: "dtype \<Rightarrow> bool \<Rightarrow> string \<Rightarrow> cell" where
  "load_cell dt naf s =
     (if naf \<and> is_na s then NA
      else case dt of
             Object \<Rightarrow> Str s
           | Numeric \<Rightarrow> Num s
           | Boolean \<Rightarrow> Bool (map lower s = ''true''))"

text \<open>A record of the table; the price is a loaded value at first and a float after the
  Field Normalizer.\<close>

record 'p row =
  row_id :: cell
  product :: cell
  price :: 'p
  country :: cell

record frame =
  id_dtype :: dtype
  product_dtype :: dtype
  price_dtype :: dtype
  country_dtype :: dtype
  rows :: "cell row list"

text \<open>With \<^verbatim>\<open>names\<close> given and no header, the tokenizer expects
  \<^verbatim>\<open>max(fields of the first line, len(names))\<close> fields. A later line with more fields is
  \<^verbatim>\<open>ParserError: Expected n fields in line k, saw m\<close>; a line with fewer is filled with empty
  fields, which load as missing. When the first line has more than 4 fields the leading
  columns become the index and the last 4 are the named ones. An empty file gives an empty
  table of object columns.\<close>

definition expected_fields :: "string list \<Rightarrow> nat" where
  "expected_fields first = max (length first) 4"

text \<open>The fields of each line under the 4 names: the line filled up to the expected number
  of fields, without the leading index columns.\<close>

definition named_fields :: "string list list \<Rightarrow> string list list" where
  "named_fields lines =
     (case lines of
        [] \<Rightarrow> []
      | first # rest \<Rightarrow>
          map (\<lambda>l. drop (expected_fields first - 4)
                      (l @ replicate (expected_fields first - length l) [])) lines)"

definition read_csv :: "string list list \<Rightarrow> error + frame" where
  "read_csv lines =
     (case lines of
        [] \<Rightarrow> Inr \<lparr>id_dtype = Object, product_dtype = Object, price_dtype = Object,
                   country_dtype = Object, rows = []\<rparr>
      | first # rest \<Rightarrow>
          if list_ex (\<lambda>l. expected_fields first < length l) rest then Inl ParserError
          else
            let table = named_fields lines;
                c0 = map (\<lambda>l. l ! 0) table;
                c1 = map (\<lambda>l. l ! 1) table;
                c2 = map (\<lambda>l. l ! 2) table;
                c3 = map (\<lambda>l. l ! 3) table
            in Inr \<lparr>id_dtype = infer_dtype c0, product_dtype = infer_dtype c1,
                     price_dtype = infer_dtype c2, country_dtype = infer_dtype c3,
                     rows = map (\<lambda>l. \<lparr>row_id = load_cell (infer_dtype c0) (na_filter c0) (l ! 0),
                                         product = load_cell (infer_dtype c1) (na_filter c1) (l ! 1),
                                         price = load_cell (infer_dtype c2) (na_filter c2) (l ! 2),
                                         country = load_cell (infer_dtype c3) (na_filter c3) (l ! 3)\<rparr>)
                              table\<rparr>)"

subsection \<open>The Field Normalizer (lines 20 and 23-24)\<close>

text \<open>\<^verbatim>\<open>Series.str\<close> exists for a column of strings only: on a numeric or bool column it is
  \<^verbatim>\<open>AttributeError: Can only use .str accessor with string values\<close>.\<close>

definition str_accessor :: "dtype \<Rightarrow> error + unit" where
  "str_accessor dt = (if dt = Object then Inr () else Inl AttributeError)"

text \<open>A \<^verbatim>\<open>.str\<close> method works on the strings of the column and gives NaN elsewhere.\<close>

definition str_method :: "(string \<Rightarrow> string) \<Rightarrow> cell \<Rightarrow> cell" where
  "str_method f c = (case c of Str s \<Rightarrow> Str (f s) | _ \<Rightarrow> NA)"

definition str_replace :: "string \<Rightarrow> string \<Rightarrow> cell \<Rightarrow> cell" where
  "str_replace old new = str_method (py_replace old new)"

definition str_strip :: "cell \<Rightarrow> cell" where
  "str_strip = str_method py_strip"

text \<open>\<^verbatim>\<open>astype(float)\<close> on one value of an object column: NaN stays NaN, a string goes through
  \<^verbatim>\<open>float\<close>, which may raise.\<close>

definition cell_to_float :: "cell \<Rightarrow> pyfloat option" where
  "cell_to_float c =
     (case c of
        NA \<Rightarrow> Some NaN
      | Str s \<Rightarrow> py_float s
      | Num s \<Rightarrow> py_float s
      | Bool b \<Rightarrow> Some (Fin (if b then 1 else 0)))"

text \<open>\<^verbatim>\<open>astype(float)\<close> on the column: the first value that does not convert raises
  \<^verbatim>\<open>ValueError\<close> for the whole column.\<close>

fun astype_float :: "cell row list \<Rightarrow> error + pyfloat row list" where
  "astype_float [] = Inr []"
| "astype_float (r # rs) =
     (case cell_to_float (price r) of
        None \<Rightarrow> Inl ValueError
      | Some x \<Rightarrow>
          (case astype_float rs of
             Inl e \<Rightarrow> Inl e
           | Inr rs' \<Rightarrow> Inr (\<lparr>row_id = row_id r, product = product r, price = x,
                                country = country r\<rparr> # rs')))"

text \<open>Line 20: \<^verbatim>\<open>df["product"] = df["product"].str.replace('"', '', regex=False).str.strip()\<close>\<close>

definition normalize_product :: "frame \<Rightarrow> error + cell row list" where
  "normalize_product df =
     (case str_accessor (product_dtype df) of
        Inl e \<Rightarrow> Inl e
      | Inr _ \<Rightarrow>
          Inr (map (\<lambda>r. r\<lparr>product := str_strip (str_replace [dquote] [] (product r))\<rparr>)
                 (rows df)))"

text \<open>Lines 23-24:
  \<^verbatim>\<open>df["price"] = df["price"].str.replace("$", "", regex=False).str.strip().astype(float)\<close>\<close>

definition normalize_price :: "dtype \<Rightarrow> cell row list \<Rightarrow> error + pyfloat row list" where
  "normalize_price dt rs =
     (case str_accessor dt of
        Inl e \<Rightarrow> Inl e
      | Inr _ \<Rightarrow>
          astype_float (map (\<lambda>r. r\<lparr>price := str_strip (str_replace ''$'' [] (price r))\<rparr>) rs))"

text \<open>The Field Normalizer: line 20, then lines 23-24.\<close>

definition normalize :: "frame \<Rightarrow> error + pyfloat row list" where
  "normalize df =
     (case normalize_product df of
        Inl e \<Rightarrow> Inl e
      | Inr df1 \<Rightarrow> normalize_price (price_dtype df) df1)"

subsection \<open>The Missing-Value Filter (lines 28-29)\<close>

definition isnull_cell :: "cell \<Rightarrow> bool" where
  "isnull_cell c = (c = NA)"

definition isnull_float :: "pyfloat \<Rightarrow> bool" where
  "isnull_float x = (x = NaN)"

text \<open>\<^verbatim>\<open>df.isnull().sum()\<close>: the number of missing values of each column.\<close>

definition isnull_sum :: "pyfloat row list \<Rightarrow> nat \<times> nat \<times> nat \<times> nat" where
  "isnull_sum rs =
     (length (filter (\<lambda>r. isnull_cell (row_id r)) rs),
      length (filter (\<lambda>r. isnull_cell (product r)) rs),
      length (filter (\<lambda>r. isnull_float (price r)) rs),
      length (filter (\<lambda>r. isnull_cell (country r)) rs))"

definition has_null :: "pyfloat row \<Rightarrow> bool" where
  "has_null r =
     (isnull_cell (row_id r) \<or> isnull_cell (product r) \<or> isnull_float (price r) \<or>
      isnull_cell (country r))"

text \<open>\<^verbatim>\<open>df.dropna()\<close>: the rows with no missing value, in their order.\<close>

definition dropna :: "pyfloat row list \<Rightarrow> pyfloat row list" where
  "dropna rs = filter (\<lambda>r. \<not> has_null r) rs"

subsection \<open>The Deduplicator (lines 33-34)\<close>

text \<open>The key of \<^verbatim>\<open>subset=["product", "price"]\<close>.\<close>

definition subset_key :: "pyfloat row \<Rightarrow> cell \<times> pyfloat" where
  "subset_key r = (product r, price r)"

text \<open>\<^verbatim>\<open>duplicated\<close> with \<^verbatim>\<open>keep='first'\<close>: a row is marked when its key has been seen in an
  earlier row.\<close>

fun duplicated_from :: "'k list \<Rightarrow> 'k list \<Rightarrow> bool list" where
  "duplicated_from seen [] = []"
| "duplicated_from seen (k # ks) = (k \<in> set seen) # duplicated_from (k # seen) ks"

definition duplicated :: "pyfloat row list \<Rightarrow> bool list" where
  "duplicated rs = duplicated_from [] (map subset_key rs)"

text \<open>\<^verbatim>\<open>drop_duplicates\<close> is \<^verbatim>\<open>df[~df.duplicated(subset)]\<close>.\<close>

definition drop_duplicates :: "pyfloat row list \<Rightarrow> pyfloat row list" where
  "drop_duplicates rs = map fst (filter (\<lambda>(r, d). \<not> d) (zip rs (duplicated rs)))"

subsection \<open>The Currency Converter, the Reshaper and the Writer (lines 38-48)\<close>

definition USD_TO_INR :: rat where
  "USD_TO_INR = 83"

record out_row =
  out_id :: cell
  out_product :: cell
  price_usd :: pyfloat
  price_inr :: pyfloat
  out_country :: cell

text \<open>Lines 38-44: the new column \<^verbatim>\<open>(df["price"] * USD_TO_INR).round(2)\<close>, the renaming of
  \<^verbatim>\<open>price\<close> and the column order.\<close>

definition convert :: "pyfloat row \<Rightarrow> out_row" where
  "convert r =
     \<lparr>out_id = row_id r, out_product = product r, price_usd = price r,
      price_inr = np_round (fmul (price r) USD_TO_INR) 2, out_country = country r\<rparr>"

subsection \<open>The program\<close>

text \<open>What a run that ends normally (exit status 0) has printed and written: the counts of
  lines 16, 28, 30, 33 and 35, and the records of the JSON array of line 48.\<close>

record report =
  total_rows :: nat
  null_counts :: "nat \<times> nat \<times> nat \<times> nat"
  rows_after_dropna :: nat
  duplicate_rows :: nat
  rows_after_dedup :: nat
  json_records :: "out_row list"

text \<open>\<open>Inl e\<close> is the exception that ends the run (a non-zero exit status, nothing
  written); the input is the file's lines, each the list of its fields.\<close>

definition main :: "string list list \<Rightarrow> error + report" where
  "main input_file =
     (case read_csv input_file of
        Inl e \<Rightarrow> Inl e
      | Inr df \<Rightarrow>
          (case normalize df of
             Inl e \<Rightarrow> Inl e
           | Inr df2 \<Rightarrow>
               let df3 = dropna df2;
                   df4 = drop_duplicates df3
               in Inr \<lparr>total_rows = length (rows df),
                        null_counts = isnull_sum df2,
                        rows_after_dropna = length df3,
                        duplicate_rows = length (filter (\<lambda>d. d) (duplicated df3)),
                        rows_after_dedup = length df4,
                        json_records = map convert df4\<rparr>))"

section \<open>Properties\<close>

subsection \<open>The shape of a run\<close>

lemma main_InrD:
  "main lines = Inr rep \<Longrightarrow>
   \<exists>df df2. read_csv lines = Inr df \<and> normalize df = Inr df2 \<and>
     rep = \<lparr>total_rows = length (rows df), null_counts = isnull_sum df2,
            rows_after_dropna = length (dropna df2),
            duplicate_rows = length (filter (\<lambda>d. d) (duplicated (dropna df2))),
            rows_after_dedup = length (drop_duplicates (dropna df2)),
            json_records = map convert (drop_duplicates (dropna df2))\<rparr>"
  by (auto simp: main_def Let_def split: sum.splits)

lemma main_InrI:
  "read_csv lines = Inr df \<Longrightarrow> normalize df = Inr df2 \<Longrightarrow>
   main lines =
     Inr \<lparr>total_rows = length (rows df), null_counts = isnull_sum df2,
          rows_after_dropna = length (dropna df2),
          duplicate_rows = length (filter (\<lambda>d. d) (duplicated (dropna df2))),
          rows_after_dedup = length (drop_duplicates (dropna df2)),
          json_records = map convert (drop_duplicates (dropna df2))\<rparr>"
  by (simp add: main_def Let_def)

lemma read_csv_rows:
  "read_csv lines = Inr df \<Longrightarrow> length (rows df) = length lines"
  by (auto simp: read_csv_def named_fields_def Let_def split: list.splits if_splits)

text \<open>
  \<^bold>\<open>C3.\<close> On an input file with no data row the program succeeds: every count it prints
  is 0, and the JSON array it writes is empty.
\<close>

theorem empty_input_succeeds:
  "main [] =
     Inr \<lparr>total_rows = 0, null_counts = (0, 0, 0, 0), rows_after_dropna = 0,
          duplicate_rows = 0, rows_after_dedup = 0, json_records = []\<rparr>"
  by (simp add: main_def read_csv_def normalize_def normalize_product_def normalize_price_def
      str_accessor_def dropna_def drop_duplicates_def duplicated_def isnull_sum_def)

subsection \<open>The Deduplicator keeps the first row of every key\<close>

lemma kept_subseq:
  "subseq (map fst (filter (\<lambda>(r, d). \<not> d) (zip rs (duplicated_from seen (map f rs))))) rs"
  by (induction rs arbitrary: seen) auto



lemma kept_count:
  "length (filter (\<lambda>d. d) (duplicated_from seen (map f rs)))
   + length (map fst (filter (\<lambda>(r, d). \<not> d) (zip rs (duplicated_from seen (map f rs)))))
   = length rs"
  by (induction rs arbitrary: seen) auto


lemma drop_duplicates_subseq: "subseq (drop_duplicates rs) rs"
  unfolding drop_duplicates_def duplicated_def by (rule kept_subseq)



lemma drop_duplicates_count:
  "length (filter (\<lambda>d. d) (duplicated rs)) + length (drop_duplicates rs) = length rs"
  unfolding drop_duplicates_def duplicated_def by (rule kept_count)

lemma drop_duplicates_subset: "r \<in> set (drop_duplicates rs) \<Longrightarrow> r \<in> set rs"
  using drop_duplicates_subseq [of rs] by (auto dest: list_emb_set)

subsection \<open>The Field Normalizer, column by column\<close>

lemma astype_float_Inr:
  "astype_float rs = Inr rs' \<Longrightarrow>
   length rs' = length rs \<and> map row_id rs' = map row_id rs \<and>
   map product rs' = map product rs \<and> map country rs' = map country rs \<and>
   map (\<lambda>r. Some (price r)) rs' = map (\<lambda>r. cell_to_float (price r)) rs"
  by (induction rs arbitrary: rs') (auto split: option.splits sum.splits)


lemma astype_float_fails:
  "r \<in> set rs \<Longrightarrow> cell_to_float (price r) = None \<Longrightarrow> astype_float rs = Inl ValueError"
proof (induction rs)
  case Nil
  then show ?case by simp
next
  case (Cons a rs)
  show ?case
  proof (cases "cell_to_float (price a)")
    case None
    then show ?thesis by simp
  next
    case (Some x)
    with Cons have "astype_float rs = Inl ValueError" by auto
    with Some show ?thesis by simp
  qed
qed

lemma normalize_InrD:
  assumes "normalize df = Inr df2"
  shows "product_dtype df = Object" and "price_dtype df = Object"
    and "length df2 = length (rows df)"
    and "map row_id df2 = map row_id (rows df)"
    and "map country df2 = map country (rows df)"
    and "map product df2 = map (\<lambda>r. str_strip (str_replace [dquote] [] (product r))) (rows df)"
    and "map (\<lambda>r. Some (price r)) df2
         = map (\<lambda>r. cell_to_float (str_strip (str_replace ''$'' [] (price r)))) (rows df)"
proof -
  from assms show d1: "product_dtype df = Object" and d2: "price_dtype df = Object"
    by (auto simp: normalize_def normalize_product_def normalize_price_def str_accessor_def
        split: sum.splits if_splits)
  from assms d1 d2 have
    "astype_float (map (\<lambda>r. r\<lparr>price := str_strip (str_replace ''$'' [] (price r))\<rparr>)
       (map (\<lambda>r. r\<lparr>product := str_strip (str_replace [dquote] [] (product r))\<rparr>) (rows df)))
     = Inr df2"
    by (simp add: normalize_def normalize_product_def normalize_price_def str_accessor_def)
  from astype_float_Inr [OF this]
  show "length df2 = length (rows df)"
    and "map row_id df2 = map row_id (rows df)"
    and "map country df2 = map country (rows df)"
    and "map product df2 = map (\<lambda>r. str_strip (str_replace [dquote] [] (product r))) (rows df)"
    and "map (\<lambda>r. Some (price r)) df2
         = map (\<lambda>r. cell_to_float (str_strip (str_replace ''$'' [] (price r)))) (rows df)"
    by (simp_all add: comp_def)
qed


lemma normalize_not_object:
  "product_dtype df \<noteq> Object \<or> price_dtype df \<noteq> Object \<Longrightarrow>
   normalize df = Inl AttributeError"
  by (auto simp: normalize_def normalize_product_def normalize_price_def str_accessor_def)

lemma normalize_unparseable:
  assumes "product_dtype df = Object" and "price_dtype df = Object"
    and "r \<in> set (rows df)"
    and "cell_to_float (str_strip (str_replace ''$'' [] (price r))) = None"
  shows "normalize df = Inl ValueError"
proof -
  let ?p = "\<lambda>r. r\<lparr>price := str_strip (str_replace ''$'' [] (price r))\<rparr>"
  let ?q = "\<lambda>r. r\<lparr>product := str_strip (str_replace [dquote] [] (product r))\<rparr>"
  have "?p (?q r) \<in> set (map ?p (map ?q (rows df)))"
    using assms(3) by simp
  moreover have "cell_to_float (price (?p (?q r))) = None"
    using assms(4) by simp
  ultimately have "astype_float (map ?p (map ?q (rows df))) = Inl ValueError"
    by (rule astype_float_fails)
  with assms(1,2) show ?thesis
    by (simp add: normalize_def normalize_product_def normalize_price_def str_accessor_def)
qed

subsection \<open>Strings after \<^verbatim>\<open>replace\<close> and \<^verbatim>\<open>strip\<close>\<close>

lemma py_replace_removes_aux:
  "old = [c] \<Longrightarrow> new = [] \<Longrightarrow> c \<notin> set (py_replace old new s)"
  by (induction old new s rule: py_replace.induct) auto


lemma py_replace_removes: "c \<notin> set (py_replace [c] [] s)"
  by (simp add: py_replace_removes_aux)


lemma py_strip_set: "x \<in> set (py_strip s) \<Longrightarrow> x \<in> set s"
  unfolding py_strip_def by (auto dest!: set_dropWhileD)


lemma py_strip_ends:
  assumes "py_strip s \<noteq> []"
  shows "\<not> py_isspace (hd (py_strip s))" and "\<not> py_isspace (last (py_strip s))"
proof -
  define t where "t = dropWhile py_isspace s"
  define u where "u = dropWhile py_isspace (rev t)"
  have strip: "py_strip s = rev u"
    by (simp add: py_strip_def t_def u_def)
  with assms have u: "u \<noteq> []" by simp
  then have "\<not> py_isspace (hd u)"
    unfolding u_def by (rule hd_dropWhile)
  then show "\<not> py_isspace (last (py_strip s))"
    by (simp add: strip last_rev)
  from u have t: "t \<noteq> []" by (auto simp: u_def)
  have "rev t = takeWhile py_isspace (rev t) @ u"
    by (simp add: u_def)
  then have "last (rev t) = last u"
    using u by (metis last_appendR)
  then have "last u = hd t" by (simp add: last_rev)
  moreover have "\<not> py_isspace (hd t)"
    using t unfolding t_def by (rule hd_dropWhile)
  ultimately show "\<not> py_isspace (hd (py_strip s))"
    by (simp add: strip hd_rev)
qed

subsection \<open>The Loader\<close>



lemma load_cell_Str: "load_cell dt naf x = Str s \<Longrightarrow> dt = Object \<and> x = s"
  by (auto simp: load_cell_def split: if_splits dtype.splits)


lemma read_csv_price_Str:
  "read_csv lines = Inr df \<Longrightarrow> r \<in> set (rows df) \<Longrightarrow> price r = Str s \<Longrightarrow>
   price_dtype df = Object"
  by (auto simp: read_csv_def Let_def split: list.splits if_splits dest!: load_cell_Str)





text \<open>When the file loads, every line has exactly the 4 named fields, so that the
  indexing in \<open>read_csv\<close> stays in range.\<close>

lemma named_fields_width:
  "read_csv lines = Inr df \<Longrightarrow> l \<in> set (named_fields lines) \<Longrightarrow> length l = 4"
  by (cases lines)
    (auto simp: read_csv_def named_fields_def expected_fields_def list_ex_iff
      split: if_splits)




subsection \<open>Every normalised row comes from the loaded row at the same position\<close>

lemma normalize_rows:
  assumes "normalize df = Inr df2"
  shows "map (\<lambda>r. (row_id r, product r, Some (price r), country r)) df2
       = map (\<lambda>r. (row_id r, str_strip (str_replace [dquote] [] (product r)),
                     cell_to_float (str_strip (str_replace ''$'' [] (price r))), country r))
           (rows df)"
proof (rule nth_equalityI)
  show "length (map (\<lambda>r. (row_id r, product r, Some (price r), country r)) df2)
      = length (map (\<lambda>r. (row_id r, str_strip (str_replace [dquote] [] (product r)),
                     cell_to_float (str_strip (str_replace ''$'' [] (price r))), country r))
           (rows df))"
    using normalize_InrD(3) [OF assms] by simp
next
  fix i
  assume "i < length (map (\<lambda>r. (row_id r, product r, Some (price r), country r)) df2)"
  then have i2: "i < length df2" by simp
  then have i1: "i < length (rows df)"
    using normalize_InrD(3) [OF assms] by simp
  have "row_id (df2 ! i) = row_id (rows df ! i)"
    using arg_cong [OF normalize_InrD(4) [OF assms], of "\<lambda>xs. xs ! i"] i1 i2 by simp
  moreover have "country (df2 ! i) = country (rows df ! i)"
    using arg_cong [OF normalize_InrD(5) [OF assms], of "\<lambda>xs. xs ! i"] i1 i2 by simp
  moreover have "product (df2 ! i) = str_strip (str_replace [dquote] [] (product (rows df ! i)))"
    using arg_cong [OF normalize_InrD(6) [OF assms], of "\<lambda>xs. xs ! i"] i1 i2 by simp
  moreover have "Some (price (df2 ! i))
      = cell_to_float (str_strip (str_replace ''$'' [] (price (rows df ! i))))"
    using arg_cong [OF normalize_InrD(7) [OF assms], of "\<lambda>xs. xs ! i"] i1 i2 by simp
  ultimately show "map (\<lambda>r. (row_id r, product r, Some (price r), country r)) df2 ! i
       = map (\<lambda>r. (row_id r, str_strip (str_replace [dquote] [] (product r)),
                     cell_to_float (str_strip (str_replace ''$'' [] (price r))), country r))
           (rows df) ! i"
    using i1 i2 by simp
qed


lemma normalize_product_form:
  assumes "normalize df = Inr df2" and "r \<in> set df2" and "product r \<noteq> NA"
  shows "\<exists>s. product r = Str (py_strip (py_replace [dquote] [] s))"
proof -
  from assms(2) have "product r \<in> set (map product df2)" by simp
  then have "product r \<in> set (map (\<lambda>r. str_strip (str_replace [dquote] [] (product r))) (rows df))"
    by (simp only: normalize_InrD(6) [OF assms(1)])
  then obtain c where "product r = str_strip (str_replace [dquote] [] c)" by auto
  with assms(3) show ?thesis
    by (cases c) (auto simp: str_strip_def str_replace_def str_method_def)
qed


lemma kept_rows:
  "r \<in> set (drop_duplicates (dropna df2)) \<Longrightarrow> r \<in> set df2 \<and> \<not> has_null r"
  by (auto dest!: drop_duplicates_subset simp: dropna_def)

subsection \<open>Rounding to an integer\<close>

lemma rint_nearest:
  "\<bar>of_int (rint q) - q\<bar> \<le> 1 / 2 \<and> (\<bar>of_int (rint q) - q\<bar> = 1 / 2 \<longrightarrow> even (rint q))"
proof -
  define f where "f = \<lfloor>q\<rfloor>"
  define d where "d = q - of_int f"
  have d: "0 \<le> d" "d < 1"
    unfolding d_def f_def by linarith+
  have q: "q = of_int f + d"
    by (simp add: d_def)
  have r: "rint q = (if d < 1 / 2 then f else if 1 / 2 < d then f + 1
                     else if even f then f else f + 1)"
    by (simp add: rint_def Let_def f_def d_def)
  show ?thesis
  proof (cases "d < 1 / 2")
    case True
    with d r q show ?thesis by (simp add: abs_if)
  next
    case False
    show ?thesis
    proof (cases "1 / 2 < d")
      case True
      with d r q False show ?thesis by (simp add: abs_if)
    next
      case h: False
      with False have "d = 1 / 2" by simp
      with r q show ?thesis by (simp add: abs_if)
    qed
  qed
qed

subsection \<open>The accuracy of the float operations\<close>

lemma pow2_powi: "pow2 e = 2 powi e"
proof (cases "0 \<le> e")
  case True
  then show ?thesis by (simp add: pow2_def power_int_def)
next
  case False
  then have "pow2 e = inverse (2 ^ nat (- e))"
    by (simp add: pow2_def inverse_eq_divide)
  also have "\<dots> = 2 powi e"
    using False by (simp add: power_int_def power_inverse inverse_eq_divide power_one_over)
  finally show ?thesis .
qed

lemma pow2_pos: "0 < pow2 e"
  by (simp add: pow2_powi)

lemma pow2_add: "pow2 (a + b) = pow2 a * pow2 b"
  by (simp add: pow2_powi power_int_add)

lemma bitlen_nonneg: "0 \<le> bitlen n"
  by (induction n rule: bitlen.induct) (subst bitlen.simps, simp)

lemma bitlen_bounds:
  "0 < n \<Longrightarrow> 2 ^ nat (bitlen n - 1) \<le> n \<and> n < 2 ^ nat (bitlen n)"
proof (induction n rule: bitlen.induct)
  case (1 n)
  show ?case
  proof (cases "n div 2 = 0")
    case True
    with "1.prems" have "n = 1" by auto
    then show ?thesis
      by (simp add: bitlen.simps [of 1] bitlen.simps [of 0])
  next
    case False
    with "1.prems" have pos: "0 < n div 2" by auto
    define b where "b = bitlen (n div 2)"
    from "1.IH" "1.prems" pos have
      ih: "2 ^ nat (b - 1) \<le> n div 2" "n div 2 < 2 ^ nat b"
      by (auto simp: b_def)
    have b1: "1 \<le> b"
    proof (rule ccontr)
      assume "\<not> 1 \<le> b"
      with bitlen_nonneg [of "n div 2"] have "b = 0" by (simp add: b_def)
      with ih(2) pos show False by simp
    qed
    have bl: "bitlen n = 1 + b"
      using "1.prems" by (subst bitlen.simps) (simp add: b_def)
    have e1: "(2::int) ^ nat b = 2 * 2 ^ nat (b - 1)"
      using b1 by (metis Suc_nat_eq_nat_zadd1 add.commute diff_add_cancel diff_ge_0_iff_ge
          power_Suc)
    have e2: "(2::int) ^ nat (1 + b) = 2 * 2 ^ nat b"
      using b1 by (simp add: nat_add_distrib)
    have "2 ^ nat b \<le> n"
      using ih(1) e1 by linarith
    moreover have "n < 2 ^ nat (1 + b)"
      using ih(2) e2 by linarith
    ultimately show ?thesis
      using bl by simp
  qed
qed

lemma floor_log2_le:
  assumes "0 < q"
  shows "pow2 (floor_log2 q) \<le> q"
proof -
  obtain n d where nd: "quotient_of q = (n, d)"
    by (cases "quotient_of q") auto
  have d: "0 < d" by (rule quotient_of_denom_pos [OF nd])
  have q: "q = of_int n / of_int d" by (rule quotient_of_div [OF nd])
  have n: "0 < n"
    using assms d q by (simp add: zero_less_divide_iff)
  define k where "k = bitlen n - bitlen d"
  have fl: "floor_log2 q = (if pow2 k \<le> q then k else k - 1)"
    by (simp add: floor_log2_def nd k_def Let_def)
  have "pow2 (k - 1) \<le> q"
  proof -
    have bn: "1 \<le> bitlen n"
    proof (rule ccontr)
      assume "\<not> 1 \<le> bitlen n"
      with bitlen_nonneg [of n] have "bitlen n = 0" by simp
      with bitlen_bounds [OF n] n show False by simp
    qed
    have "(2::int) ^ nat (bitlen n - 1) \<le> n"
      using bitlen_bounds [OF n] by simp
    then have "(of_int ((2::int) ^ nat (bitlen n - 1)) :: rat) \<le> of_int n"
      by (simp only: of_int_le_iff)
    then have lo: "pow2 (bitlen n - 1) \<le> of_int n"
      using bn by (simp add: pow2_def)
    have "d < 2 ^ nat (bitlen d)"
      using bitlen_bounds [OF d] by simp
    then have "(of_int d :: rat) < of_int ((2::int) ^ nat (bitlen d))"
      by (simp only: of_int_less_iff)
    then have hi: "of_int d \<le> pow2 (bitlen d)"
      using bitlen_nonneg [of d] by (simp add: pow2_def)
    have dpos: "(0::rat) < of_int d" using d by simp
    have "pow2 (k - 1) * pow2 (bitlen d) = pow2 (bitlen n - 1)"
      by (simp add: pow2_add [symmetric] k_def)
    then have "pow2 (k - 1) * of_int d \<le> pow2 (bitlen n - 1)"
      using hi pow2_pos [of "k - 1"]
      by (metis mult_le_cancel_left_pos)
    with lo have "pow2 (k - 1) * of_int d \<le> of_int n" by linarith
    then show ?thesis
      using dpos by (simp add: q pos_le_divide_eq)
  qed
  then show ?thesis by (simp add: fl)
qed

text \<open>A float result is within half a unit in the last place of the exact value: a
  relative error of \<open>2 ^ -53\<close>, or \<open>2 ^ -1075\<close> below the normal range.\<close>

lemma to_double_error:
  assumes "to_double q = Fin r"
  shows "\<bar>r - q\<bar> \<le> \<bar>q\<bar> * pow2 (- 53) + pow2 (- 1075)"
proof (cases "q = 0")
  case True
  with assms have "r = 0" by (simp add: to_double_def)
  with True show ?thesis using pow2_pos [of "- 1075"] by simp
next
  case False
  define e where "e = max (floor_log2 \<bar>q\<bar>) (- 1022)"
  define ulp where "ulp = pow2 (e - 52)"
  have r: "r = of_int (rint (q / ulp)) * ulp"
    using assms False
    by (simp add: to_double_def Let_def e_def ulp_def split: if_splits)
  have up: "0 < ulp" by (simp add: ulp_def pow2_pos)
  have "\<bar>of_int (rint (q / ulp)) - q / ulp\<bar> \<le> 1 / 2"
    using rint_nearest [of "q / ulp"] by simp
  then have "\<bar>of_int (rint (q / ulp)) - q / ulp\<bar> * ulp \<le> 1 / 2 * ulp"
    using up by (simp add: mult_right_mono)
  moreover have "\<bar>of_int (rint (q / ulp)) - q / ulp\<bar> * ulp = \<bar>r - q\<bar>"
  proof -
    have "\<bar>of_int (rint (q / ulp)) - q / ulp\<bar> * ulp
          = \<bar>(of_int (rint (q / ulp)) - q / ulp) * ulp\<bar>"
      using up by (simp add: abs_mult)
    also have "(of_int (rint (q / ulp)) - q / ulp) * ulp = r - q"
      using up by (simp add: r left_diff_distrib)
    finally show ?thesis .
  qed
  ultimately have half: "\<bar>r - q\<bar> \<le> ulp / 2" by simp
  have u2: "ulp / 2 = pow2 (e - 53)"
  proof -
    have "pow2 (e - 53) * pow2 1 = pow2 (e - 52)"
      by (simp add: pow2_add [symmetric])
    then show ?thesis by (simp add: ulp_def pow2_def [of 1])
  qed
  show ?thesis
  proof (cases "- 1022 \<le> floor_log2 \<bar>q\<bar>")
    case True
    then have e: "e = floor_log2 \<bar>q\<bar>" by (simp add: e_def)
    have "pow2 e \<le> \<bar>q\<bar>"
      unfolding e using False by (intro floor_log2_le) simp
    then have "pow2 e * pow2 (- 53) \<le> \<bar>q\<bar> * pow2 (- 53)"
      using pow2_pos [of "- 53"] by (simp add: mult_right_mono)
    moreover have "pow2 (e - 53) = pow2 e * pow2 (- 53)"
      by (simp add: pow2_add [symmetric])
    ultimately show ?thesis
      using half u2 pow2_pos [of "- 1075"] by linarith
  next
    case False
    then have "e = - 1022" by (simp add: e_def)
    then have "pow2 (e - 53) = pow2 (- 1075)" by simp
    moreover have "0 \<le> \<bar>q\<bar> * pow2 (- 53)"
      using pow2_pos [of "- 53"] by simp
    ultimately show ?thesis
      using half u2 by linarith
  qed
qed

lemma fmul_error:
  "fmul (Fin p) c = Fin y \<Longrightarrow> \<bar>y - p * c\<bar> \<le> \<bar>p * c\<bar> * pow2 (- 53) + pow2 (- 1075)"
  by (simp add: fmul_def to_double_error)
















subsection \<open>Lines with fewer fields than expected\<close>







section \<open>The claims\<close>

text \<open>
  \<^bold>\<open>C1.\<close> The claim: a row whose price, after the removal of \<^verbatim>\<open>$\<close> and of surrounding
  whitespace, does not parse as a float makes no error; its price becomes a missing value,
  and the row is counted, dropped by the Missing-Value Filter and absent from the output.
  The program has no such coercion: \<^verbatim>\<open>astype(float)\<close> raises, and the run ends there. On the
  one-row file \<^verbatim>\<open>1,Widget,$abc,US\<close> the price does not parse and the run ends with
  \<^verbatim>\<open>ValueError\<close>.
\<close>

theorem unparseable_price_counterexample:
  "py_float (py_strip (py_replace ''$'' [] ''$abc'')) = None \<and>
   main [[''1'', ''Widget'', ''$abc'', ''US'']] = Inl ValueError"
  by code_simp

text \<open>
  \<^bold>\<open>C1, as the program has it.\<close> When the file loads and some row's price is a string
  that, after the removal of \<^verbatim>\<open>$\<close> and of surrounding whitespace, does not parse as a
  float, the run ends with an error and writes nothing: \<^verbatim>\<open>ValueError\<close> from the Field
  Normalizer when the product column is text, \<^verbatim>\<open>AttributeError\<close> from its first line
  otherwise.
\<close>

theorem unparseable_price_raises:
  assumes "read_csv lines = Inr df" and "r \<in> set (rows df)" and "price r = Str s"
    and "py_float (py_strip (py_replace ''$'' [] s)) = None"
  shows "main lines = Inl (if product_dtype df = Object then ValueError else AttributeError)"
proof (cases "product_dtype df = Object")
  case True
  have "price_dtype df = Object"
    using assms(1-3) by (rule read_csv_price_Str)
  moreover have "cell_to_float (str_strip (str_replace ''$'' [] (price r))) = None"
    using assms(3,4) by (simp add: cell_to_float_def str_strip_def str_replace_def str_method_def)
  ultimately have "normalize df = Inl ValueError"
    using True assms(2) by (intro normalize_unparseable)
  with assms(1) True show ?thesis by (simp add: main_def)
next
  case False
  then have "normalize df = Inl AttributeError" by (simp add: normalize_not_object)
  with assms(1) False show ?thesis by (simp add: main_def)
qed

theorem unparseable_price_raises_witness:
  "read_csv [[''1'', ''Widget'', ''$abc'', ''US'']] =
     Inr \<lparr>id_dtype = Numeric, product_dtype = Object, price_dtype = Object,
          country_dtype = Object,
          rows = [\<lparr>row_id = Num ''1'', product = Str ''Widget'', price = Str ''$abc'',
                   country = Str ''US''\<rparr>]\<rparr> \<and>
   py_float (py_strip (py_replace ''$'' [] ''$abc'')) = None \<and>
   main [[''1'', ''Widget'', ''$abc'', ''US'']] = Inl ValueError"
proof -
  have h1: "read_csv [[''1'', ''Widget'', ''$abc'', ''US'']] =
     Inr \<lparr>id_dtype = Numeric, product_dtype = Object, price_dtype = Object,
          country_dtype = Object,
          rows = [\<lparr>row_id = Num ''1'', product = Str ''Widget'', price = Str ''$abc'',
                   country = Str ''US''\<rparr>]\<rparr>"
    by code_simp
  have h4: "py_float (py_strip (py_replace ''$'' [] ''$abc'')) = None"
    by code_simp
  from unparseable_price_raises [OF h1 _ _ h4,
      of "\<lparr>row_id = Num ''1'', product = Str ''Widget'', price = Str ''$abc'',
           country = Str ''US''\<rparr>"]
  have "main [[''1'', ''Widget'', ''$abc'', ''US'']] = Inl ValueError" by simp
  with h1 h4 show ?thesis by simp
qed




text \<open>
  \<^bold>\<open>C6.\<close> In every record of the output the product is a string with no double quote in
  it and with no whitespace at either end.
\<close>

theorem product_is_clean:
  assumes "main lines = Inr rep" and "x \<in> set (json_records rep)"
  shows "\<exists>s. out_product x = Str s \<and> dquote \<notin> set s \<and>
           (s = [] \<or> (\<not> py_isspace (hd s) \<and> \<not> py_isspace (last s)))"
proof -
  from main_InrD [OF assms(1)] obtain df df2 where
    n: "normalize df = Inr df2" and
    j: "json_records rep = map convert (drop_duplicates (dropna df2))"
    by auto
  from assms(2) j obtain r where
    r: "r \<in> set (drop_duplicates (dropna df2))" and x: "x = convert r"
    by auto
  from kept_rows [OF r] have r2: "r \<in> set df2" and "product r \<noteq> NA"
    by (auto simp: has_null_def isnull_cell_def)
  with normalize_product_form [OF n] obtain s0 where
    p: "product r = Str (py_strip (py_replace [dquote] [] s0))"
    by blast
  let ?s = "py_strip (py_replace [dquote] [] s0)"
  have "out_product x = Str ?s"
    using x p by (simp add: convert_def)
  moreover have "dquote \<notin> set ?s"
    using py_replace_removes [of dquote s0] by (auto dest: py_strip_set)
  moreover have "?s = [] \<or> (\<not> py_isspace (hd ?s) \<and> \<not> py_isspace (last ?s))"
    using py_strip_ends [of "py_replace [dquote] [] s0"] by blast
  ultimately show ?thesis by blast
qed

theorem product_is_clean_witness:
  "main [[''1'', CHR '' '' # dquote # ''Widget'' @ [dquote, CHR '' ''], ''$0.375'', ''US'']] =
     Inr \<lparr>total_rows = 1, null_counts = (0, 0, 0, 0), rows_after_dropna = 1,
          duplicate_rows = 0, rows_after_dedup = 1,
          json_records =
            [\<lparr>out_id = Num ''1'', out_product = Str ''Widget'', price_usd = Fin (3 / 8),
               price_inr = Fin (8759501275235615 / 281474976710656),
               out_country = Str ''US''\<rparr>]\<rparr> \<and>
   (\<exists>s. Str ''Widget'' = Str s \<and> dquote \<notin> set s \<and>
        (s = [] \<or> (\<not> py_isspace (hd s) \<and> \<not> py_isspace (last s))))"
proof -
  have h: "main [[''1'', CHR '' '' # dquote # ''Widget'' @ [dquote, CHR '' ''], ''$0.375'', ''US'']] =
     Inr \<lparr>total_rows = 1, null_counts = (0, 0, 0, 0), rows_after_dropna = 1,
          duplicate_rows = 0, rows_after_dedup = 1,
          json_records =
            [\<lparr>out_id = Num ''1'', out_product = Str ''Widget'', price_usd = Fin (3 / 8),
               price_inr = Fin (8759501275235615 / 281474976710656),
               out_country = Str ''US''\<rparr>]\<rparr>"
    by code_simp
  from product_is_clean [OF h,
      of "\<lparr>out_id = Num ''1'', out_product = Str ''Widget'', price_usd = Fin (3 / 8),
            price_inr = Fin (8759501275235615 / 281474976710656),
            out_country = Str ''US''\<rparr>"]
  have "\<exists>s. Str ''Widget'' = Str s \<and> dquote \<notin> set s \<and>
        (s = [] \<or> (\<not> py_isspace (hd s) \<and> \<not> py_isspace (last s)))"
    by simp
  with h show ?thesis by (rule conjI)
qed









text \<open>
  \<^bold>\<open>C8.\<close> The number of records of the output is the number of loaded rows (one for
  each input line) less the rows the Missing-Value Filter drops, less the rows the
  Deduplicator drops; and the number of duplicates printed before the removal is the
  number of rows the Deduplicator removes.
\<close>

theorem row_count_identity:
  assumes "main lines = Inr rep" and "read_csv lines = Inr df" and "normalize df = Inr df2"
  shows "total_rows rep = length lines \<and>
         rows_after_dropna rep = total_rows rep - length (filter has_null df2) \<and>
         duplicate_rows rep = length (dropna df2) - length (drop_duplicates (dropna df2)) \<and>
         duplicate_rows rep = rows_after_dropna rep - rows_after_dedup rep \<and>
         length (json_records rep)
           = total_rows rep - length (filter has_null df2) - duplicate_rows rep \<and>
         length (json_records rep) + length (filter has_null df2) + duplicate_rows rep
           = total_rows rep"
proof -
  from main_InrD [OF assms(1)] assms(2,3) have
    rep: "rep = \<lparr>total_rows = length (rows df), null_counts = isnull_sum df2,
            rows_after_dropna = length (dropna df2),
            duplicate_rows = length (filter (\<lambda>d. d) (duplicated (dropna df2))),
            rows_after_dedup = length (drop_duplicates (dropna df2)),
            json_records = map convert (drop_duplicates (dropna df2))\<rparr>"
    by auto
  have t: "length (rows df) = length lines"
    by (rule read_csv_rows [OF assms(2)])
  have n: "length df2 = length lines"
    using normalize_InrD(3) [OF assms(3)] t by simp
  have f: "length (filter has_null df2) + length (dropna df2) = length df2"
    unfolding dropna_def by (rule sum_length_filter_compl)
  have d: "length (filter (\<lambda>d. d) (duplicated (dropna df2)))
           + length (drop_duplicates (dropna df2)) = length (dropna df2)"
    by (rule drop_duplicates_count)
  from t n f d show ?thesis
    unfolding rep by simp linarith
qed

theorem row_count_identity_witness:
  "(main [[''1'', ''Widget'', ''$10.00'', ''US''], [''2'', ''Widget'', ''$10'', ''IN''],
      [''3'', ''Gadget'', '''', ''UK'']] =
      Inr \<lparr>total_rows = 3, null_counts = (0, 0, 1, 0), rows_after_dropna = 2,
        duplicate_rows = 1, rows_after_dedup = 1,
        json_records =
          [\<lparr>out_id = Num ''1'', out_product = Str ''Widget'', price_usd = Fin 10,
             price_inr = Fin 830, out_country = Str ''US''\<rparr>]\<rparr> \<and>
    read_csv [[''1'', ''Widget'', ''$10.00'', ''US''], [''2'', ''Widget'', ''$10'', ''IN''],
      [''3'', ''Gadget'', '''', ''UK'']] =
      Inr \<lparr>id_dtype = Numeric, product_dtype = Object, price_dtype = Object,
        country_dtype = Object,
        rows =
          [\<lparr>row_id = Num ''1'', product = Str ''Widget'', price = Str ''$10.00'',
             country = Str ''US''\<rparr>,
           \<lparr>row_id = Num ''2'', product = Str ''Widget'', price = Str ''$10'',
             country = Str ''IN''\<rparr>,
           \<lparr>row_id = Num ''3'', product = Str ''Gadget'', price = NA,
             country = Str ''UK''\<rparr>]\<rparr> \<and>
    normalize \<lparr>id_dtype = Numeric, product_dtype = Object, price_dtype = Object,
        country_dtype = Object,
        rows =
          [\<lparr>row_id = Num ''1'', product = Str ''Widget'', price = Str ''$10.00'',
             country = Str ''US''\<rparr>,
           \<lparr>row_id = Num ''2'', product = Str ''Widget'', price = Str ''$10'',
             country = Str ''IN''\<rparr>,
           \<lparr>row_id = Num ''3'', product = Str ''Gadget'', price = NA,
             country = Str ''UK''\<rparr>]\<rparr> =
      Inr [\<lparr>row_id = Num ''1'', product = Str ''Widget'', price = Fin 10, country = Str ''US''\<rparr>,
       \<lparr>row_id = Num ''2'', product = Str ''Widget'', price = Fin 10, country = Str ''IN''\<rparr>,
       \<lparr>row_id = Num ''3'', product = Str ''Gadget'', price = NaN, country = Str ''UK''\<rparr>]) \<and>
   (total_rows \<lparr>total_rows = 3, null_counts = (0, 0, 1, 0), rows_after_dropna = 2,
        duplicate_rows = 1, rows_after_dedup = 1,
        json_records =
          [\<lparr>out_id = Num ''1'', out_product = Str ''Widget'', price_usd = Fin 10,
             price_inr = Fin 830, out_country = Str ''US''\<rparr>]\<rparr> = length [[''1'', ''Widget'', ''$10.00'', ''US''], [''2'', ''Widget'', ''$10'', ''IN''],
      [''3'', ''Gadget'', '''', ''UK'']] \<and>
    rows_after_dropna \<lparr>total_rows = 3, null_counts = (0, 0, 1, 0), rows_after_dropna = 2,
        duplicate_rows = 1, rows_after_dedup = 1,
        json_records =
          [\<lparr>out_id = Num ''1'', out_product = Str ''Widget'', price_usd = Fin 10,
             price_inr = Fin 830, out_country = Str ''US''\<rparr>]\<rparr> = total_rows \<lparr>total_rows = 3, null_counts = (0, 0, 1, 0), rows_after_dropna = 2,
        duplicate_rows = 1, rows_after_dedup = 1,
        json_records =
          [\<lparr>out_id = Num ''1'', out_product = Str ''Widget'', price_usd = Fin 10,
             price_inr = Fin 830, out_country = Str ''US''\<rparr>]\<rparr> - length (filter has_null [\<lparr>row_id = Num ''1'', product = Str ''Widget'', price = Fin 10, country = Str ''US''\<rparr>,
       \<lparr>row_id = Num ''2'', product = Str ''Widget'', price = Fin 10, country = Str ''IN''\<rparr>,
       \<lparr>row_id = Num ''3'', product = Str ''Gadget'', price = NaN, country = Str ''UK''\<rparr>]) \<and>
    duplicate_rows \<lparr>total_rows = 3, null_counts = (0, 0, 1, 0), rows_after_dropna = 2,
        duplicate_rows = 1, rows_after_dedup = 1,
        json_records =
          [\<lparr>out_id = Num ''1'', out_product = Str ''Widget'', price_usd = Fin 10,
             price_inr = Fin 830, out_country = Str ''US''\<rparr>]\<rparr> = length (dropna [\<lparr>row_id = Num ''1'', product = Str ''Widget'', price = Fin 10, country = Str ''US''\<rparr>,
       \<lparr>row_id = Num ''2'', product = Str ''Widget'', price = Fin 10, country = Str ''IN''\<rparr>,
       \<lparr>row_id = Num ''3'', product = Str ''Gadget'', price = NaN, country = Str ''UK''\<rparr>]) - length (drop_duplicates (dropna [\<lparr>row_id = Num ''1'', product = Str ''Widget'', price = Fin 10, country = Str ''US''\<rparr>,
       \<lparr>row_id = Num ''2'', product = Str ''Widget'', price = Fin 10, country = Str ''IN''\<rparr>,
       \<lparr>row_id = Num ''3'', product = Str ''Gadget'', price = NaN, country = Str ''UK''\<rparr>])) \<and>
    duplicate_rows \<lparr>total_rows = 3, null_counts = (0, 0, 1, 0), rows_after_dropna = 2,
        duplicate_rows = 1, rows_after_dedup = 1,
        json_records =
          [\<lparr>out_id = Num ''1'', out_product = Str ''Widget'', price_usd = Fin 10,
             price_inr = Fin 830, out_country = Str ''US''\<rparr>]\<rparr> = rows_after_dropna \<lparr>total_rows = 3, null_counts = (0, 0, 1, 0), rows_after_dropna = 2,
        duplicate_rows = 1, rows_after_dedup = 1,
        json_records =
          [\<lparr>out_id = Num ''1'', out_product = Str ''Widget'', price_usd = Fin 10,
             price_inr = Fin 830, out_country = Str ''US''\<rparr>]\<rparr> - rows_after_dedup \<lparr>total_rows = 3, null_counts = (0, 0, 1, 0), rows_after_dropna = 2,
        duplicate_rows = 1, rows_after_dedup = 1,
        json_records =
          [\<lparr>out_id = Num ''1'', out_product = Str ''Widget'', price_usd = Fin 10,
             price_inr = Fin 830, out_country = Str ''US''\<rparr>]\<rparr> \<and>
    length (json_records \<lparr>total_rows = 3, null_counts = (0, 0, 1, 0), rows_after_dropna = 2,
        duplicate_rows = 1, rows_after_dedup = 1,
        json_records =
          [\<lparr>out_id = Num ''1'', out_product = Str ''Widget'', price_usd = Fin 10,
             price_inr = Fin 830, out_country = Str ''US''\<rparr>]\<rparr>)
      = total_rows \<lparr>total_rows = 3, null_counts = (0, 0, 1, 0), rows_after_dropna = 2,
        duplicate_rows = 1, rows_after_dedup = 1,
        json_records =
          [\<lparr>out_id = Num ''1'', out_product = Str ''Widget'', price_usd = Fin 10,
             price_inr = Fin 830, out_country = Str ''US''\<rparr>]\<rparr> - length (filter has_null [\<lparr>row_id = Num ''1'', product = Str ''Widget'', price = Fin 10, country = Str ''US''\<rparr>,
       \<lparr>row_id = Num ''2'', product = Str ''Widget'', price = Fin 10, country = Str ''IN''\<rparr>,
       \<lparr>row_id = Num ''3'', product = Str ''Gadget'', price = NaN, country = Str ''UK''\<rparr>]) - duplicate_rows \<lparr>total_rows = 3, null_counts = (0, 0, 1, 0), rows_after_dropna = 2,
        duplicate_rows = 1, rows_after_dedup = 1,
        json_records =
          [\<lparr>out_id = Num ''1'', out_product = Str ''Widget'', price_usd = Fin 10,
             price_inr = Fin 830, out_country = Str ''US''\<rparr>]\<rparr> \<and>
    length (json_records \<lparr>total_rows = 3, null_counts = (0, 0, 1, 0), rows_after_dropna = 2,
        duplicate_rows = 1, rows_after_dedup = 1,
        json_records =
          [\<lparr>out_id = Num ''1'', out_product = Str ''Widget'', price_usd = Fin 10,
             price_inr = Fin 830, out_country = Str ''US''\<rparr>]\<rparr>) + length (filter has_null [\<lparr>row_id = Num ''1'', product = Str ''Widget'', price = Fin 10, country = Str ''US''\<rparr>,
       \<lparr>row_id = Num ''2'', product = Str ''Widget'', price = Fin 10, country = Str ''IN''\<rparr>,
       \<lparr>row_id = Num ''3'', product = Str ''Gadget'', price = NaN, country = Str ''UK''\<rparr>]) + duplicate_rows \<lparr>total_rows = 3, null_counts = (0, 0, 1, 0), rows_after_dropna = 2,
        duplicate_rows = 1, rows_after_dedup = 1,
        json_records =
          [\<lparr>out_id = Num ''1'', out_product = Str ''Widget'', price_usd = Fin 10,
             price_inr = Fin 830, out_country = Str ''US''\<rparr>]\<rparr>
      = total_rows \<lparr>total_rows = 3, null_counts = (0, 0, 1, 0), rows_after_dropna = 2,
        duplicate_rows = 1, rows_after_dedup = 1,
        json_records =
          [\<lparr>out_id = Num ''1'', out_product = Str ''Widget'', price_usd = Fin 10,
             price_inr = Fin 830, out_country = Str ''US''\<rparr>]\<rparr>)"
proof -
  have h1: "main [[''1'', ''Widget'', ''$10.00'', ''US''], [''2'', ''Widget'', ''$10'', ''IN''],
      [''3'', ''Gadget'', '''', ''UK'']] =
      Inr \<lparr>total_rows = 3, null_counts = (0, 0, 1, 0), rows_after_dropna = 2,
        duplicate_rows = 1, rows_after_dedup = 1,
        json_records =
          [\<lparr>out_id = Num ''1'', out_product = Str ''Widget'', price_usd = Fin 10,
             price_inr = Fin 830, out_country = Str ''US''\<rparr>]\<rparr>"
    by code_simp
  have h2: "read_csv [[''1'', ''Widget'', ''$10.00'', ''US''], [''2'', ''Widget'', ''$10'', ''IN''],
      [''3'', ''Gadget'', '''', ''UK'']] =
      Inr \<lparr>id_dtype = Numeric, product_dtype = Object, price_dtype = Object,
        country_dtype = Object,
        rows =
          [\<lparr>row_id = Num ''1'', product = Str ''Widget'', price = Str ''$10.00'',
             country = Str ''US''\<rparr>,
           \<lparr>row_id = Num ''2'', product = Str ''Widget'', price = Str ''$10'',
             country = Str ''IN''\<rparr>,
           \<lparr>row_id = Num ''3'', product = Str ''Gadget'', price = NA,
             country = Str ''UK''\<rparr>]\<rparr>"
    by code_simp
  have h3: "normalize \<lparr>id_dtype = Numeric, product_dtype = Object, price_dtype = Object,
        country_dtype = Object,
        rows =
          [\<lparr>row_id = Num ''1'', product = Str ''Widget'', price = Str ''$10.00'',
             country = Str ''US''\<rparr>,
           \<lparr>row_id = Num ''2'', product = Str ''Widget'', price = Str ''$10'',
             country = Str ''IN''\<rparr>,
           \<lparr>row_id = Num ''3'', product = Str ''Gadget'', price = NA,
             country = Str ''UK''\<rparr>]\<rparr> =
      Inr [\<lparr>row_id = Num ''1'', product = Str ''Widget'', price = Fin 10, country = Str ''US''\<rparr>,
       \<lparr>row_id = Num ''2'', product = Str ''Widget'', price = Fin 10, country = Str ''IN''\<rparr>,
       \<lparr>row_id = Num ''3'', product = Str ''Gadget'', price = NaN, country = Str ''UK''\<rparr>]"
    by code_simp
  show ?thesis
    by (rule conjI [OF conjI [OF h1 conjI [OF h2 h3]] row_count_identity [OF h1 h2 h3]])
qed

text \<open>
  \<^bold>\<open>C9.\<close> Every record of the output is one loaded row, in the order of the loaded rows,
  with the row's id and country as they were loaded: no stage changes them. (The product
  and the price of the record are that same row's, normalised.)
\<close>

theorem id_and_country_unchanged:
  assumes "main lines = Inr rep" and "read_csv lines = Inr df"
  shows "subseq
           (map (\<lambda>x. (out_id x, out_product x, Some (price_usd x), out_country x))
              (json_records rep))
           (map (\<lambda>r. (row_id r, str_strip (str_replace [dquote] [] (product r)),
                        cell_to_float (str_strip (str_replace ''$'' [] (price r))), country r))
              (rows df))"
proof -
  from main_InrD [OF assms(1)] assms(2) obtain df2 where
    n: "normalize df = Inr df2" and
    j: "json_records rep = map convert (drop_duplicates (dropna df2))"
    by auto
  have "subseq (drop_duplicates (dropna df2)) (dropna df2)"
    by (rule drop_duplicates_subseq)
  moreover have "subseq (dropna df2) df2"
    by (simp add: dropna_def)
  ultimately have "subseq (drop_duplicates (dropna df2)) df2"
    by (rule subseq_order.trans)
  then have "subseq
      (map (\<lambda>r. (row_id r, product r, Some (price r), country r)) (drop_duplicates (dropna df2)))
      (map (\<lambda>r. (row_id r, product r, Some (price r), country r)) df2)"
    by (rule subseq_map)
  moreover have
    "map (\<lambda>x. (out_id x, out_product x, Some (price_usd x), out_country x)) (json_records rep)
     = map (\<lambda>r. (row_id r, product r, Some (price r), country r)) (drop_duplicates (dropna df2))"
    by (simp add: j convert_def comp_def)
  ultimately show ?thesis
    by (simp only: normalize_rows [OF n])
qed

theorem id_and_country_unchanged_witness:
  "(main [[''1'', ''Widget'', ''$10.00'', ''US''], [''2'', ''Widget'', ''$10'', ''IN''],
      [''3'', ''Gadget'', '''', ''UK'']] =
      Inr \<lparr>total_rows = 3, null_counts = (0, 0, 1, 0), rows_after_dropna = 2,
        duplicate_rows = 1, rows_after_dedup = 1,
        json_records =
          [\<lparr>out_id = Num ''1'', out_product = Str ''Widget'', price_usd = Fin 10,
             price_inr = Fin 830, out_country = Str ''US''\<rparr>]\<rparr> \<and>
    read_csv [[''1'', ''Widget'', ''$10.00'', ''US''], [''2'', ''Widget'', ''$10'', ''IN''],
      [''3'', ''Gadget'', '''', ''UK'']] =
      Inr \<lparr>id_dtype = Numeric, product_dtype = Object, price_dtype = Object,
        country_dtype = Object,
        rows =
          [\<lparr>row_id = Num ''1'', product = Str ''Widget'', price = Str ''$10.00'',
             country = Str ''US''\<rparr>,
           \<lparr>row_id = Num ''2'', product = Str ''Widget'', price = Str ''$10'',
             country = Str ''IN''\<rparr>,
           \<lparr>row_id = Num ''3'', product = Str ''Gadget'', price = NA,
             country = Str ''UK''\<rparr>]\<rparr>) \<and>
   (subseq
      (map (\<lambda>x. (out_id x, out_product x, Some (price_usd x), out_country x))
         (json_records \<lparr>total_rows = 3, null_counts = (0, 0, 1, 0), rows_after_dropna = 2,
        duplicate_rows = 1, rows_after_dedup = 1,
        json_records =
          [\<lparr>out_id = Num ''1'', out_product = Str ''Widget'', price_usd = Fin 10,
             price_inr = Fin 830, out_country = Str ''US''\<rparr>]\<rparr>))
      (map (\<lambda>r. (row_id r, str_strip (str_replace [dquote] [] (product r)),
                   cell_to_float (str_strip (str_replace ''$'' [] (price r))), country r))
         (rows \<lparr>id_dtype = Numeric, product_dtype = Object, price_dtype = Object,
        country_dtype = Object,
        rows =
          [\<lparr>row_id = Num ''1'', product = Str ''Widget'', price = Str ''$10.00'',
             country = Str ''US''\<rparr>,
           \<lparr>row_id = Num ''2'', product = Str ''Widget'', price = Str ''$10'',
             country = Str ''IN''\<rparr>,
           \<lparr>row_id = Num ''3'', product = Str ''Gadget'', price = NA,
             country = Str ''UK''\<rparr>]\<rparr>)))"
proof -
  have h1: "main [[''1'', ''Widget'', ''$10.00'', ''US''], [''2'', ''Widget'', ''$10'', ''IN''],
      [''3'', ''Gadget'', '''', ''UK'']] =
      Inr \<lparr>total_rows = 3, null_counts = (0, 0, 1, 0), rows_after_dropna = 2,
        duplicate_rows = 1, rows_after_dedup = 1,
        json_records =
          [\<lparr>out_id = Num ''1'', out_product = Str ''Widget'', price_usd = Fin 10,
             price_inr = Fin 830, out_country = Str ''US''\<rparr>]\<rparr>"
    by code_simp
  have h2: "read_csv [[''1'', ''Widget'', ''$10.00'', ''US''], [''2'', ''Widget'', ''$10'', ''IN''],
      [''3'', ''Gadget'', '''', ''UK'']] =
      Inr \<lparr>id_dtype = Numeric, product_dtype = Object, price_dtype = Object,
        country_dtype = Object,
        rows =
          [\<lparr>row_id = Num ''1'', product = Str ''Widget'', price = Str ''$10.00'',
             country = Str ''US''\<rparr>,
           \<lparr>row_id = Num ''2'', product = Str ''Widget'', price = Str ''$10'',
             country = Str ''IN''\<rparr>,
           \<lparr>row_id = Num ''3'', product = Str ''Gadget'', price = NA,
             country = Str ''UK''\<rparr>]\<rparr>"
    by code_simp
  show ?thesis
    by (rule conjI [OF conjI [OF h1 h2] id_and_country_unchanged [OF h1 h2]])
qed




end
